theory Spec2Isabelle
  imports Complex_Main "HOL-Library.AList"
begin

section \<open>Python values and arithmetic\<close>

text \<open>
  The functions of \<^verbatim>\<open>utils.py\<close> work on the values the data provider hands out:
  \<^verbatim>\<open>None\<close>, numbers, and the not-a-number float that pandas uses for a missing cell.
  Numbers are read as exact reals: the development is about the formulas and the
  branches of the code, not about binary rounding (the one line of which a claim asks
  an exact float value is read in binary64 further down). The operations follow Python's
  built-in \<^verbatim>\<open>int\<close> and \<^verbatim>\<open>float\<close>: an operand \<^verbatim>\<open>None\<close> raises
  \<^verbatim>\<open>TypeError\<close>, a zero divisor raises \<^verbatim>\<open>ZeroDivisionError\<close>, and a
  not-a-number operand makes the result not-a-number.
\<close>

datatype pyval = PNone | PNum real | PNaN

datatype exn = TypeError | ZeroDivisionError | KeyError | IndexError

definition and_then :: "exn + 'a \<Rightarrow> ('a \<Rightarrow> exn + 'b) \<Rightarrow> exn + 'b" where
  "and_then m f = (case m of Inl e \<Rightarrow> Inl e | Inr v \<Rightarrow> f v)"

fun py_add :: "pyval \<Rightarrow> pyval \<Rightarrow> exn + pyval" where
  "py_add PNone b = Inl TypeError"
| "py_add a PNone = Inl TypeError"
| "py_add (PNum x) (PNum y) = Inr (PNum (x + y))"
| "py_add a b = Inr PNaN"

fun py_sub :: "pyval \<Rightarrow> pyval \<Rightarrow> exn + pyval" where
  "py_sub PNone b = Inl TypeError"
| "py_sub a PNone = Inl TypeError"
| "py_sub (PNum x) (PNum y) = Inr (PNum (x - y))"
| "py_sub a b = Inr PNaN"

fun py_mul :: "pyval \<Rightarrow> pyval \<Rightarrow> exn + pyval" where
  "py_mul PNone b = Inl TypeError"
| "py_mul a PNone = Inl TypeError"
| "py_mul (PNum x) (PNum y) = Inr (PNum (x * y))"
| "py_mul a b = Inr PNaN"

fun py_div :: "pyval \<Rightarrow> pyval \<Rightarrow> exn + pyval" where
  "py_div PNone b = Inl TypeError"
| "py_div a PNone = Inl TypeError"
| "py_div (PNum x) (PNum y) = (if y = 0 then Inl ZeroDivisionError else Inr (PNum (x / y)))"
| "py_div PNaN (PNum y) = (if y = 0 then Inl ZeroDivisionError else Inr PNaN)"
| "py_div a PNaN = Inr PNaN"




text \<open>Truth value of a Python value: \<^verbatim>\<open>None\<close> and zero are false, not-a-number is true.\<close>

fun truthy :: "pyval \<Rightarrow> bool" where
  "truthy PNone = False"
| "truthy (PNum x) = (x \<noteq> 0)"
| "truthy PNaN = True"

section \<open>Discounted cash flow: \<^verbatim>\<open>calculate_dcf\<close>\<close>




section \<open>What the data provider hands out\<close>

text \<open>
  The \<^verbatim>\<open>info\<close> dictionary maps field names to values. A statement table
  (\<^verbatim>\<open>cashflow\<close>, \<^verbatim>\<open>balance_sheet\<close>, \<^verbatim>\<open>financials\<close>) is a pandas frame whose
  index holds the line items and whose columns are the periods, most recent first: here
  the number of period columns and, per line item, the cells of its row in column order.
  A missing cell is pandas' not-a-number.
\<close>

type_synonym info = "string \<rightharpoonup> pyval"

type_synonym cell = "real option"

record table =
  periods :: nat
  line_items :: "(string \<times> cell list) list"

fun of_cell :: "cell \<Rightarrow> pyval" where
  "of_cell None = PNaN"
| "of_cell (Some x) = PNum x"

text \<open>\<^verbatim>\<open>info.get(k)\<close>: an absent key reads as \<^verbatim>\<open>None\<close>.\<close>

definition info_get :: "info \<Rightarrow> string \<Rightarrow> pyval" where
  "info_get i k = (case i k of None \<Rightarrow> PNone | Some v \<Rightarrow> v)"

text \<open>\<^verbatim>\<open>k not in info or info[k] is None\<close>\<close>

definition missing :: "info \<Rightarrow> string \<Rightarrow> bool" where
  "missing i k = (i k = None \<or> i k = Some PNone)"

text \<open>\<^verbatim>\<open>df.empty\<close>: one of the two axes has length zero.\<close>

definition empty_table :: "table \<Rightarrow> bool" where
  "empty_table t = (periods t = 0 \<or> line_items t = [])"

text \<open>\<^verbatim>\<open>row in df.index\<close>\<close>

definition in_index :: "table \<Rightarrow> string \<Rightarrow> bool" where
  "in_index t row = (map_of (line_items t) row \<noteq> None)"

text \<open>
  \<^verbatim>\<open>df.loc[row, col]\<close> for the \<open>col\<close>-th period, and \<^verbatim>\<open>df.loc[row].iloc[0]\<close> for
  \<open>col = 0\<close>: a row that is not there raises \<^verbatim>\<open>KeyError\<close>, a position that is not
  there \<^verbatim>\<open>IndexError\<close>. Every row of a frame has one cell per column; a row
  written with fewer cells is read as padded with missing cells, as pandas pads it.
\<close>

definition cell_at :: "cell list \<Rightarrow> nat \<Rightarrow> cell" where
  "cell_at cells col = (if col < length cells then cells ! col else None)"

definition loc :: "table \<Rightarrow> string \<Rightarrow> nat \<Rightarrow> exn + pyval" where
  "loc t row col =
     (case map_of (line_items t) row of
        None \<Rightarrow> Inl KeyError
      | Some cells \<Rightarrow>
          if col < periods t then Inr (of_cell (cell_at cells col)) else Inl IndexError)"

text \<open>\<^verbatim>\<open>pd.notna(v)\<close>\<close>

fun notna :: "pyval \<Rightarrow> bool" where
  "notna PNone = False"
| "notna (PNum x) = True"
| "notna PNaN = False"

text \<open>
  The attributes of \<^verbatim>\<open>yf.Ticker(ticker)\<close> that the code reads. The fundamentals
  snapshot \<^verbatim>\<open>stock.info\<close> and the quote \<^verbatim>\<open>stock.fast_info\<close> may fail (\<open>None\<close>: the
  access raises); a statement the provider cannot supply is an empty table.
  \<open>history_close\<close> is the \<^verbatim>\<open>Close\<close> column of \<^verbatim>\<open>stock.history(period="5d")\<close>,
  oldest bar first.
\<close>

record ticker =
  ticker_info :: "info option"
  fast_info :: "info option"
  history_close :: "cell list"
  cashflow :: table
  balance_sheet :: table
  financials :: table

text \<open>A ticker for which the provider has nothing: the starting point of the examples.\<close>

definition no_data :: ticker where
  "no_data = \<lparr>ticker_info = None, fast_info = None, history_close = [],
     cashflow = \<lparr>periods = 0, line_items = []\<rparr>,
     balance_sheet = \<lparr>periods = 0, line_items = []\<rparr>,
     financials = \<lparr>periods = 0, line_items = []\<rparr>\<rparr>"

section \<open>Normalising the fundamentals: \<^verbatim>\<open>fetch_stock_info\<close>\<close>

text \<open>
  Step 1, lines 28 to 41. The price is written whenever the quote or the recent history
  has one; there is no test of what \<^verbatim>\<open>info\<close> already holds.
\<close>

definition update_price :: "ticker \<Rightarrow> info \<Rightarrow> info" where
  "update_price stock i =
     (case fast_info stock of
        None \<Rightarrow> i
      | Some quote \<Rightarrow>
          (let last_price = info_get quote ''last_price'' in
           if truthy last_price
           then i(''currentPrice'' \<mapsto> last_price, ''regularMarketPrice'' \<mapsto> last_price)
           else (let recent = history_close stock in
                 if recent \<noteq> []
                 then i(''currentPrice'' \<mapsto> of_cell (last recent),
                        ''regularMarketPrice'' \<mapsto> of_cell (last recent))
                 else i)))"

text \<open>Step 2, lines 47 to 52.\<close>

definition update_shares :: "ticker \<Rightarrow> info \<Rightarrow> info" where
  "update_shares stock i =
     (if missing i ''sharesOutstanding''
      then (case fast_info stock of
              None \<Rightarrow> i
            | Some quote \<Rightarrow>
                (let shares = info_get quote ''shares'' in
                 if truthy shares then i(''sharesOutstanding'' \<mapsto> shares) else i))
      else i)"

text \<open>
  Step 3, lines 55 to 77. Each loop runs over the period columns and stops at the first
  period it accepts (\<^verbatim>\<open>break\<close>).
\<close>

fun fcf_direct :: "table \<Rightarrow> nat list \<Rightarrow> info \<Rightarrow> exn + info" where
  "fcf_direct cf [] i = Inr i"
| "fcf_direct cf (col # rest) i =
     and_then (loc cf ''Free Cash Flow'' col) (\<lambda>val.
     if notna val \<and> val \<noteq> PNum 0 then Inr (i(''freeCashFlow'' \<mapsto> val))
     else fcf_direct cf rest i)"

fun fcf_fallback :: "table \<Rightarrow> nat list \<Rightarrow> info \<Rightarrow> exn + info" where
  "fcf_fallback cf [] i = Inr i"
| "fcf_fallback cf (col # rest) i =
     and_then (loc cf ''Operating Cash Flow'' col) (\<lambda>ops.
     and_then (loc cf ''Capital Expenditure'' col) (\<lambda>capex.
     if notna ops \<and> notna capex
     then and_then (py_add ops capex) (\<lambda>v. Inr (i(''freeCashFlow'' \<mapsto> v)))
     else fcf_fallback cf rest i))"

definition extract_fcf_try :: "ticker \<Rightarrow> info \<Rightarrow> exn + info" where
  "extract_fcf_try stock i =
     (let cf = cashflow stock in
      if \<not> empty_table cf then
        if in_index cf ''Free Cash Flow'' then fcf_direct cf [0..<periods cf] i
        else if in_index cf ''Operating Cash Flow'' \<and> in_index cf ''Capital Expenditure''
        then fcf_fallback cf [0..<periods cf] i
        else Inr i
      else Inr i)"

definition extract_fcf :: "ticker \<Rightarrow> info \<Rightarrow> info" where
  "extract_fcf stock i =
     (if missing i ''freeCashFlow''
      then (case extract_fcf_try stock i of Inl e \<Rightarrow> i | Inr i' \<Rightarrow> i')
      else i)"

text \<open>
  Step 4, lines 80 to 103. For the debt, a key that holds \<^verbatim>\<open>None\<close> is deleted first,
  and stays deleted when the balance sheet has nothing to put there.
\<close>

definition extract_total_debt :: "ticker \<Rightarrow> info \<Rightarrow> info" where
  "extract_total_debt stock i =
     (if missing i ''totalDebt'' then
        (let i1 = i(''totalDebt'' := None); bs = balance_sheet stock in
         if \<not> empty_table bs then
           if in_index bs ''Total Debt''
           then (case loc bs ''Total Debt'' 0 of
                   Inl e \<Rightarrow> i1 | Inr v \<Rightarrow> i1(''totalDebt'' \<mapsto> v))
           else if in_index bs ''Long Term Debt''
           then (case loc bs ''Long Term Debt'' 0 of
                   Inl e \<Rightarrow> i1 | Inr v \<Rightarrow> i1(''totalDebt'' \<mapsto> v))
           else i1
         else i1)
      else i)"

definition extract_total_cash :: "ticker \<Rightarrow> info \<Rightarrow> info" where
  "extract_total_cash stock i =
     (if missing i ''totalCash'' then
        (let bs = balance_sheet stock in
         if \<not> empty_table bs then
           if in_index bs ''Cash And Cash Equivalents''
           then (case loc bs ''Cash And Cash Equivalents'' 0 of
                   Inl e \<Rightarrow> i | Inr v \<Rightarrow> i(''totalCash'' \<mapsto> v))
           else if in_index bs ''Cash Cash Equivalents And Short Term Investments''
           then (case loc bs ''Cash Cash Equivalents And Short Term Investments'' 0 of
                   Inl e \<Rightarrow> i | Inr v \<Rightarrow> i(''totalCash'' \<mapsto> v))
           else i
         else i)
      else i)"

text \<open>
  Lines 26 to 105: what the function does to the dictionary it got from
  \<^verbatim>\<open>stock.info\<close>, and the function itself, which returns \<^verbatim>\<open>None\<close> when the
  snapshot cannot be read.
\<close>

definition normalize_info :: "ticker \<Rightarrow> info \<Rightarrow> info" where
  "normalize_info stock i =
     extract_total_cash stock (extract_total_debt stock (extract_fcf stock
       (update_shares stock (update_price stock i))))"

definition fetch_stock_info :: "ticker \<Rightarrow> info option" where
  "fetch_stock_info stock =
     (case ticker_info stock of None \<Rightarrow> None | Some i \<Rightarrow> Some (normalize_info stock i))"

subsection \<open>The free cash flow rule in the specification's words\<close>

text \<open>
  The specification describes step 3 by what is found, not by how the loops run: "the
  first value that is non-null and non-zero" of the \<^verbatim>\<open>Free Cash Flow\<close> row, and "the
  first period where both are non-null" of operating cash flow and capital expenditure,
  periods scanned most recent first. These definitions follow those words; the
  properties below compare them with the loops.
\<close>

definition valid_cell :: "cell \<Rightarrow> bool" where
  "valid_cell c = (c \<noteq> None \<and> c \<noteq> Some 0)"

definition both_present :: "cell \<times> cell \<Rightarrow> bool" where
  "both_present p = (fst p \<noteq> None \<and> snd p \<noteq> None)"

fun cell_sum :: "cell \<times> cell \<Rightarrow> pyval" where
  "cell_sum (Some a, Some b) = PNum (a + b)"
| "cell_sum p = PNaN"

definition first_valid_fcf :: "table \<Rightarrow> pyval option" where
  "first_valid_fcf cf =
     (case map_of (line_items cf) ''Free Cash Flow'' of
        None \<Rightarrow> None
      | Some cells \<Rightarrow>
          map_option of_cell (find valid_cell (map (cell_at cells) [0..<periods cf])))"

definition first_ops_plus_capex :: "table \<Rightarrow> pyval option" where
  "first_ops_plus_capex cf =
     (case map_of (line_items cf) ''Operating Cash Flow'' of
        None \<Rightarrow> None
      | Some ops \<Rightarrow>
          (case map_of (line_items cf) ''Capital Expenditure'' of
             None \<Rightarrow> None
           | Some capex \<Rightarrow>
               map_option cell_sum
                 (find both_present
                    (map (\<lambda>col. (cell_at ops col, cell_at capex col)) [0..<periods cf]))))"

text \<open>The source the code consults: the fallback is tried only when the direct row is absent.\<close>

definition fcf_source :: "table \<Rightarrow> pyval option" where
  "fcf_source cf =
     (if in_index cf ''Free Cash Flow'' then first_valid_fcf cf else first_ops_plus_capex cf)"

section \<open>Cost of capital: \<^verbatim>\<open>calculate_wacc\<close>\<close>

fun py_abs :: "pyval \<Rightarrow> exn + pyval" where
  "py_abs PNone = Inl TypeError"
| "py_abs (PNum x) = Inr (PNum \<bar>x\<bar>)"
| "py_abs PNaN = Inr PNaN"

text \<open>\<^verbatim>\<open>v > 0\<close>: a comparison with not-a-number is false.\<close>

fun py_gt0 :: "pyval \<Rightarrow> exn + bool" where
  "py_gt0 PNone = Inl TypeError"
| "py_gt0 (PNum x) = Inr (x > 0)"
| "py_gt0 PNaN = Inr False"

text \<open>Lines 211 to 220.\<close>

definition interest_expense_of :: "table \<Rightarrow> exn + pyval" where
  "interest_expense_of fin =
     (if \<not> empty_table fin then
        if in_index fin ''Interest Expense''
        then and_then (loc fin ''Interest Expense'' 0) py_abs
        else if in_index fin ''Interest Expense Non Operating''
        then and_then (loc fin ''Interest Expense Non Operating'' 0) py_abs
        else Inr (PNum 0)
      else Inr (PNum 0))"

text \<open>Lines 223 to 228; \<^verbatim>\<open>and\<close> evaluates its right operand only when the left is true.\<close>

definition cost_of_debt_of :: "pyval \<Rightarrow> pyval \<Rightarrow> exn + pyval" where
  "cost_of_debt_of total_debt interest_expense =
     and_then (if truthy total_debt
               then and_then (py_gt0 total_debt) (\<lambda>b.
                      if b then py_gt0 interest_expense else Inr False)
               else Inr False) (\<lambda>c.
     if c then py_div interest_expense total_debt else Inr (PNum 0.045))"

text \<open>Lines 240 to 246.\<close>

definition blended_wacc :: "pyval \<Rightarrow> pyval \<Rightarrow> pyval \<Rightarrow> pyval \<Rightarrow> exn + pyval" where
  "blended_wacc market_cap total_debt cost_of_equity cost_of_debt =
     and_then (py_add market_cap total_debt) (\<lambda>total_value.
     and_then (py_div market_cap total_value) (\<lambda>equity_weight.
     and_then (py_div total_debt total_value) (\<lambda>debt_weight.
     and_then (py_mul equity_weight cost_of_equity) (\<lambda>e.
     and_then (py_mul debt_weight cost_of_debt) (\<lambda>dc.
     and_then (py_sub (PNum 1) (PNum 0.21)) (\<lambda>after_tax.
     and_then (py_mul dc after_tax) (\<lambda>d.
     py_add e d)))))))"

text \<open>Lines 196 to 246, once \<^verbatim>\<open>info\<close> is a dictionary.\<close>

definition wacc_of_info :: "ticker \<Rightarrow> info \<Rightarrow> exn + (pyval \<times> pyval \<times> pyval)" where
  "wacc_of_info stock i =
     (let beta = info_get i ''beta'' in
      if beta = PNone then Inr (PNone, PNone, PNone)
      else
        and_then (py_mul beta (PNum 0.05)) (\<lambda>premium.
        and_then (py_add (PNum 0.0425) premium) (\<lambda>cost_of_equity.
        let total_debt = info_get i ''totalDebt'' in
        and_then (interest_expense_of (financials stock)) (\<lambda>interest_expense.
        and_then (cost_of_debt_of total_debt interest_expense) (\<lambda>cost_of_debt.
        let market_cap = info_get i ''marketCap'';
            blended =
              and_then (blended_wacc market_cap total_debt cost_of_equity cost_of_debt) (\<lambda>wacc.
              Inr (wacc, cost_of_equity, cost_of_debt))
        in
        if \<not> truthy market_cap \<or> \<not> truthy total_debt then
          if \<not> truthy market_cap then Inr (PNone, PNone, PNone)
          else if \<not> truthy total_debt then Inr (cost_of_equity, cost_of_equity, PNum 0)
          else blended
        else blended)))))"

definition calculate_wacc_try ::
  "ticker \<Rightarrow> info option \<Rightarrow> exn + (pyval \<times> pyval \<times> pyval)" where
  "calculate_wacc_try stock info_arg =
     (case info_arg of
        Some i \<Rightarrow> wacc_of_info stock i
      | None \<Rightarrow>
          (case fetch_stock_info stock of
             None \<Rightarrow> Inr (PNone, PNone, PNone)
           | Some i \<Rightarrow> wacc_of_info stock i))"

text \<open>\<^verbatim>\<open>except Exception\<close> returns three times \<^verbatim>\<open>None\<close>.\<close>

definition calculate_wacc ::
  "ticker \<Rightarrow> info option \<Rightarrow> exn + (pyval \<times> pyval \<times> pyval)" where
  "calculate_wacc stock info_arg =
     (case calculate_wacc_try stock info_arg of
        Inl e \<Rightarrow> Inr (PNone, PNone, PNone)
      | Inr r \<Rightarrow> Inr r)"

subsection \<open>The cost of equity in binary64\<close>

text \<open>
  Python's \<^verbatim>\<open>float\<close> is IEEE binary64: a significand of 53 bits, every operation
  rounded to the nearest representable number, ties to the even significand. For a
  magnitude in the normal range, \<open>find_exp\<close> looks for the exponent \<open>e\<close> at which
  \<open>\<bar>x\<bar> / 2 ^ e\<close> has 53 bits before the point, one step per unit of fuel; the
  exponents of binary64 lie within the fuel given. Overflow and subnormal numbers are
  left out: the values below are far from both.
\<close>

definition pow2 :: "int \<Rightarrow> real" where
  "pow2 e = (if e \<ge> 0 then 2 ^ nat e else 1 / 2 ^ nat (- e))"

definition round_half_even :: "real \<Rightarrow> int" where
  "round_half_even x =
     (let n = \<lfloor>x\<rfloor>; d = x - of_int n
      in if d < 1 / 2 then n else if d > 1 / 2 then n + 1 else if even n then n else n + 1)"

fun find_exp :: "nat \<Rightarrow> real \<Rightarrow> int \<Rightarrow> int" where
  "find_exp 0 x e = e"
| "find_exp (Suc fuel) x e =
     (if x / pow2 e < 2 ^ 52 then find_exp fuel x (e - 1)
      else if x / pow2 e \<ge> 2 ^ 53 then find_exp fuel x (e + 1)
      else e)"

definition f64_round :: "real \<Rightarrow> real" where
  "f64_round x =
     (if x = 0 then 0
      else (let e = find_exp 2200 \<bar>x\<bar> 0
            in sgn x * of_int (round_half_even (\<bar>x\<bar> / pow2 e)) * pow2 e))"

definition f64_add :: "real \<Rightarrow> real \<Rightarrow> real" where
  "f64_add a b = f64_round (a + b)"

definition f64_mul :: "real \<Rightarrow> real \<Rightarrow> real" where
  "f64_mul a b = f64_round (a * b)"

text \<open>
  Lines 202 to 204 on floats: the two literals are the doubles nearest to them, and
  \<^verbatim>\<open>risk_free_rate + beta * equity_risk_premium\<close> rounds twice.
\<close>

definition cost_of_equity_f64 :: "real \<Rightarrow> real" where
  "cost_of_equity_f64 beta = f64_add (f64_round 0.0425) (f64_mul beta (f64_round 0.05))"

section \<open>Technical indicators: \<^verbatim>\<open>calculate_indicators\<close>\<close>

















section \<open>Properties of \<^verbatim>\<open>calculate_dcf\<close>\<close>




















section \<open>Properties of \<^verbatim>\<open>fetch_stock_info\<close>\<close>

subsection \<open>The loops of step 3 find what the specification describes\<close>

lemma notna_of_cell: "notna (of_cell c) \<longleftrightarrow> c \<noteq> None"
  by (cases c) auto

lemma of_cell_zero: "of_cell c = PNum 0 \<longleftrightarrow> c = Some 0"
  by (cases c) auto

lemma fcf_direct_find:
  assumes "map_of (line_items cf) ''Free Cash Flow'' = Some cells"
    and "\<forall>col \<in> set cols. col < periods cf"
  shows "fcf_direct cf cols i =
     Inr (case find valid_cell (map (cell_at cells) cols) of
            None \<Rightarrow> i
          | Some c \<Rightarrow> i(''freeCashFlow'' \<mapsto> of_cell c))"
  using assms(2)
proof (induction cols)
  case Nil
  then show ?case by simp
next
  case (Cons col rest)
  then show ?case
    by (auto simp: loc_def assms(1) and_then_def valid_cell_def notna_of_cell of_cell_zero fun_eq_iff)
qed

lemma fcf_fallback_find:
  assumes "map_of (line_items cf) ''Operating Cash Flow'' = Some ops"
    and "map_of (line_items cf) ''Capital Expenditure'' = Some capex"
    and "\<forall>col \<in> set cols. col < periods cf"
  shows "fcf_fallback cf cols i =
     Inr (case find both_present (map (\<lambda>col. (cell_at ops col, cell_at capex col)) cols) of
            None \<Rightarrow> i
          | Some p \<Rightarrow> i(''freeCashFlow'' \<mapsto> cell_sum p))"
  using assms(3)
proof (induction cols)
  case Nil
  then show ?case by simp
next
  case (Cons col rest)
  then show ?case
    by (cases "cell_at ops col"; cases "cell_at capex col")
       (auto simp: loc_def assms(1,2) and_then_def both_present_def fun_eq_iff)
qed

lemma extract_fcf_try_eq:
  "extract_fcf_try stock i =
     Inr (case fcf_source (cashflow stock) of None \<Rightarrow> i | Some v \<Rightarrow> i(''freeCashFlow'' \<mapsto> v))"
proof (cases "empty_table (cashflow stock)")
  case True
  then have "periods (cashflow stock) = 0 \<or> line_items (cashflow stock) = []"
    by (simp add: empty_table_def)
  then have "fcf_source (cashflow stock) = None"
    by (auto simp: fcf_source_def first_valid_fcf_def first_ops_plus_capex_def in_index_def
        split: option.splits)
  with True show ?thesis by (simp add: extract_fcf_try_def)
next
  case False
  show ?thesis
  proof (cases "in_index (cashflow stock) ''Free Cash Flow''")
    case True
    then obtain cells where c: "map_of (line_items (cashflow stock)) ''Free Cash Flow'' = Some cells"
      by (auto simp: in_index_def)
    have "fcf_direct (cashflow stock) [0..<periods (cashflow stock)] i =
       Inr (case find valid_cell (map (cell_at cells) [0..<periods (cashflow stock)]) of
            None \<Rightarrow> i | Some c \<Rightarrow> i(''freeCashFlow'' \<mapsto> of_cell c))"
      by (rule fcf_direct_find [OF c]) simp
    with True False c show ?thesis
      by (simp add: extract_fcf_try_def fcf_source_def first_valid_fcf_def split: option.splits)
  next
    case nofcf: False
    show ?thesis
    proof (cases "in_index (cashflow stock) ''Operating Cash Flow''
                  \<and> in_index (cashflow stock) ''Capital Expenditure''")
      case True
      then obtain ops capex where
        o: "map_of (line_items (cashflow stock)) ''Operating Cash Flow'' = Some ops" and
        c: "map_of (line_items (cashflow stock)) ''Capital Expenditure'' = Some capex"
        by (auto simp: in_index_def)
      have "fcf_fallback (cashflow stock) [0..<periods (cashflow stock)] i =
         Inr (case find both_present (map (\<lambda>col. (cell_at ops col, cell_at capex col))
                 [0..<periods (cashflow stock)]) of
            None \<Rightarrow> i | Some p \<Rightarrow> i(''freeCashFlow'' \<mapsto> cell_sum p))"
        by (rule fcf_fallback_find [OF o c]) simp
      with True False nofcf o c show ?thesis
        by (simp add: extract_fcf_try_def fcf_source_def first_ops_plus_capex_def
            split: option.splits)
    next
      case False
      then have "first_ops_plus_capex (cashflow stock) = None"
        by (auto simp: first_ops_plus_capex_def in_index_def split: option.splits)
      with False nofcf \<open>\<not> empty_table (cashflow stock)\<close> show ?thesis
        by (auto simp: extract_fcf_try_def fcf_source_def Let_def)
    qed
  qed
qed

lemma extract_fcf_eq:
  "extract_fcf stock i =
     (if missing i ''freeCashFlow''
      then (case fcf_source (cashflow stock) of None \<Rightarrow> i | Some v \<Rightarrow> i(''freeCashFlow'' \<mapsto> v))
      else i)"
  by (simp add: extract_fcf_def extract_fcf_try_eq)

lemma fcf_source_not_none: "fcf_source cf \<noteq> Some PNone"
proof -
  have a: "of_cell c \<noteq> PNone" for c by (cases c) auto
  have b: "cell_sum p \<noteq> PNone" for p by (cases p rule: cell_sum.cases) auto
  show ?thesis
    using a b
    by (auto simp: fcf_source_def first_valid_fcf_def first_ops_plus_capex_def
        split: option.splits)
qed


subsection \<open>Each step rewrites one key, as a function of what the key held\<close>

lemma update_price_form:
  "\<exists>g. (\<forall>x. g (g x) = g x) \<and>
     (\<forall>i. update_price stock i =
          (\<lambda>k. if k = ''currentPrice'' \<or> k = ''regularMarketPrice'' then g (i k) else i k))"
proof -
  define r where "r =
     (case fast_info stock of
        None \<Rightarrow> None
      | Some quote \<Rightarrow>
          if truthy (info_get quote ''last_price'') then Some (info_get quote ''last_price'')
          else if history_close stock \<noteq> [] then Some (of_cell (last (history_close stock)))
          else None)"
  define g :: "pyval option \<Rightarrow> pyval option" where
    "g = (\<lambda>x. case r of None \<Rightarrow> x | Some p \<Rightarrow> Some p)"
  have 1: "g (g x) = g x" for x by (simp add: g_def split: option.splits)
  have 2: "update_price stock i =
          (\<lambda>k. if k = ''currentPrice'' \<or> k = ''regularMarketPrice'' then g (i k) else i k)" for i
    by (auto simp: update_price_def g_def r_def Let_def fun_eq_iff split: option.splits)
  from 1 2 show ?thesis by blast
qed

lemma fill_keywise:
  "(if missing i k then (case r of None \<Rightarrow> i | Some v \<Rightarrow> i(k \<mapsto> v)) else i) =
   (\<lambda>k'. if k' = k
         then (\<lambda>x. if x = None \<or> x = Some PNone then (case r of None \<Rightarrow> x | Some p \<Rightarrow> Some p)
                   else x) (i k')
         else i k')"
  by (auto simp: missing_def fun_eq_iff split: option.splits)

lemma refill_keywise:
  "(if missing i k then (case r of None \<Rightarrow> i(k := None) | Some v \<Rightarrow> i(k \<mapsto> v)) else i) =
   (\<lambda>k'. if k' = k then (\<lambda>x. if x = None \<or> x = Some PNone then r else x) (i k') else i k')"
  by (auto simp: missing_def fun_eq_iff split: option.splits)

lemma fill_form:
  assumes "r \<noteq> Some PNone"
    and "\<And>i. step i = (if missing i k then (case r of None \<Rightarrow> i | Some v \<Rightarrow> i(k \<mapsto> v)) else i)"
  shows "\<exists>g. (\<forall>x. g (g x) = g x) \<and> (\<forall>x. x \<noteq> None \<longrightarrow> x \<noteq> Some PNone \<longrightarrow> g x = x) \<and>
     (\<forall>i. step i = (\<lambda>k'. if k' = k then g (i k') else i k'))"
proof -
  define g :: "pyval option \<Rightarrow> pyval option" where
    "g = (\<lambda>x. if x = None \<or> x = Some PNone then (case r of None \<Rightarrow> x | Some p \<Rightarrow> Some p) else x)"
  have 1: "g (g x) = g x" for x using assms(1) by (auto simp: g_def split: option.splits)
  have 2: "g x = x" if "x \<noteq> None" "x \<noteq> Some PNone" for x using that by (auto simp: g_def)
  have 3: "step i = (\<lambda>k'. if k' = k then g (i k') else i k')" for i
    unfolding assms(2) fill_keywise g_def ..
  from 1 2 3 show ?thesis by blast
qed

lemma refill_form:
  assumes "r \<noteq> Some PNone"
    and "\<And>i. step i =
      (if missing i k then (case r of None \<Rightarrow> i(k := None) | Some v \<Rightarrow> i(k \<mapsto> v)) else i)"
  shows "\<exists>g. (\<forall>x. g (g x) = g x) \<and> (\<forall>x. x \<noteq> None \<longrightarrow> x \<noteq> Some PNone \<longrightarrow> g x = x) \<and>
     (\<forall>i. step i = (\<lambda>k'. if k' = k then g (i k') else i k'))"
proof -
  define g :: "pyval option \<Rightarrow> pyval option" where
    "g = (\<lambda>x. if x = None \<or> x = Some PNone then r else x)"
  have 1: "g (g x) = g x" for x using assms(1) by (auto simp: g_def split: option.splits)
  have 2: "g x = x" if "x \<noteq> None" "x \<noteq> Some PNone" for x using that by (auto simp: g_def)
  have 3: "step i = (\<lambda>k'. if k' = k then g (i k') else i k')" for i
    unfolding assms(2) refill_keywise g_def ..
  from 1 2 3 show ?thesis by blast
qed

lemma update_shares_form:
  "\<exists>g. (\<forall>x. g (g x) = g x) \<and> (\<forall>x. x \<noteq> None \<longrightarrow> x \<noteq> Some PNone \<longrightarrow> g x = x) \<and>
     (\<forall>i. update_shares stock i = (\<lambda>k. if k = ''sharesOutstanding'' then g (i k) else i k))"
proof (rule fill_form)
  define r where "r =
     (case fast_info stock of
        None \<Rightarrow> None
      | Some quote \<Rightarrow>
          if truthy (info_get quote ''shares'') then Some (info_get quote ''shares'') else None)"
  show "r \<noteq> Some PNone" by (auto simp: r_def split: option.splits)
  show "update_shares stock i =
      (if missing i ''sharesOutstanding''
       then (case r of None \<Rightarrow> i | Some v \<Rightarrow> i(''sharesOutstanding'' \<mapsto> v)) else i)" for i
    by (simp add: update_shares_def r_def Let_def split: option.splits)
qed

lemma extract_fcf_form:
  "\<exists>g. (\<forall>x. g (g x) = g x) \<and> (\<forall>x. x \<noteq> None \<longrightarrow> x \<noteq> Some PNone \<longrightarrow> g x = x) \<and>
     (\<forall>i. extract_fcf stock i = (\<lambda>k. if k = ''freeCashFlow'' then g (i k) else i k))"
  by (rule fill_form [OF fcf_source_not_none extract_fcf_eq])

lemma loc_not_none: "loc t row col \<noteq> Inr PNone"
proof -
  have "of_cell c \<noteq> PNone" for c by (cases c) auto
  then show ?thesis by (auto simp: loc_def split: option.splits)
qed

lemma extract_total_debt_form:
  "\<exists>g. (\<forall>x. g (g x) = g x) \<and> (\<forall>x. x \<noteq> None \<longrightarrow> x \<noteq> Some PNone \<longrightarrow> g x = x) \<and>
     (\<forall>i. extract_total_debt stock i = (\<lambda>k. if k = ''totalDebt'' then g (i k) else i k))"
proof (rule refill_form)
  define bs where "bs = balance_sheet stock"
  define r where "r =
     (if \<not> empty_table bs then
        if in_index bs ''Total Debt''
        then (case loc bs ''Total Debt'' 0 of Inl e \<Rightarrow> None | Inr v \<Rightarrow> Some v)
        else if in_index bs ''Long Term Debt''
        then (case loc bs ''Long Term Debt'' 0 of Inl e \<Rightarrow> None | Inr v \<Rightarrow> Some v)
        else None
      else None)"
  show "r \<noteq> Some PNone"
    using loc_not_none [of bs] by (auto simp: r_def split: sum.splits)
  show "extract_total_debt stock i =
      (if missing i ''totalDebt''
       then (case r of None \<Rightarrow> i(''totalDebt'' := None) | Some v \<Rightarrow> i(''totalDebt'' \<mapsto> v))
       else i)" for i
    by (simp add: extract_total_debt_def r_def bs_def Let_def split: sum.splits)
qed

lemma extract_total_cash_form:
  "\<exists>g. (\<forall>x. g (g x) = g x) \<and> (\<forall>x. x \<noteq> None \<longrightarrow> x \<noteq> Some PNone \<longrightarrow> g x = x) \<and>
     (\<forall>i. extract_total_cash stock i = (\<lambda>k. if k = ''totalCash'' then g (i k) else i k))"
proof (rule fill_form)
  define bs where "bs = balance_sheet stock"
  define r where "r =
     (if \<not> empty_table bs then
        if in_index bs ''Cash And Cash Equivalents''
        then (case loc bs ''Cash And Cash Equivalents'' 0 of Inl e \<Rightarrow> None | Inr v \<Rightarrow> Some v)
        else if in_index bs ''Cash Cash Equivalents And Short Term Investments''
        then (case loc bs ''Cash Cash Equivalents And Short Term Investments'' 0 of
                Inl e \<Rightarrow> None | Inr v \<Rightarrow> Some v)
        else None
      else None)"
  show "r \<noteq> Some PNone"
    using loc_not_none [of bs] by (auto simp: r_def split: sum.splits)
  show "extract_total_cash stock i =
      (if missing i ''totalCash''
       then (case r of None \<Rightarrow> i | Some v \<Rightarrow> i(''totalCash'' \<mapsto> v)) else i)" for i
    by (simp add: extract_total_cash_def r_def bs_def Let_def split: sum.splits)
qed

lemma normalize_keywise:
  "\<exists>h. (\<forall>k x. h k (h k x) = h k x) \<and>
       (\<forall>k x. k \<noteq> ''currentPrice'' \<longrightarrow> k \<noteq> ''regularMarketPrice'' \<longrightarrow>
              x \<noteq> None \<longrightarrow> x \<noteq> Some PNone \<longrightarrow> h k x = x) \<and>
       (\<forall>i k. normalize_info stock i k = h k (i k))"
proof -
  obtain g1 where g1: "\<forall>x. g1 (g1 x) = g1 x"
    "\<forall>i. update_price stock i =
          (\<lambda>k. if k = ''currentPrice'' \<or> k = ''regularMarketPrice'' then g1 (i k) else i k)"
    using update_price_form [of stock] by blast
  obtain g2 where g2: "\<forall>x. g2 (g2 x) = g2 x"
    "\<forall>x. x \<noteq> None \<longrightarrow> x \<noteq> Some PNone \<longrightarrow> g2 x = x"
    "\<forall>i. update_shares stock i = (\<lambda>k. if k = ''sharesOutstanding'' then g2 (i k) else i k)"
    using update_shares_form [of stock] by blast
  obtain g3 where g3: "\<forall>x. g3 (g3 x) = g3 x"
    "\<forall>x. x \<noteq> None \<longrightarrow> x \<noteq> Some PNone \<longrightarrow> g3 x = x"
    "\<forall>i. extract_fcf stock i = (\<lambda>k. if k = ''freeCashFlow'' then g3 (i k) else i k)"
    using extract_fcf_form [of stock] by blast
  obtain g4 where g4: "\<forall>x. g4 (g4 x) = g4 x"
    "\<forall>x. x \<noteq> None \<longrightarrow> x \<noteq> Some PNone \<longrightarrow> g4 x = x"
    "\<forall>i. extract_total_debt stock i = (\<lambda>k. if k = ''totalDebt'' then g4 (i k) else i k)"
    using extract_total_debt_form [of stock] by blast
  obtain g5 where g5: "\<forall>x. g5 (g5 x) = g5 x"
    "\<forall>x. x \<noteq> None \<longrightarrow> x \<noteq> Some PNone \<longrightarrow> g5 x = x"
    "\<forall>i. extract_total_cash stock i = (\<lambda>k. if k = ''totalCash'' then g5 (i k) else i k)"
    using extract_total_cash_form [of stock] by blast
  define h where "h = (\<lambda>k x.
     if k = ''currentPrice'' \<or> k = ''regularMarketPrice'' then g1 x
     else if k = ''sharesOutstanding'' then g2 x
     else if k = ''freeCashFlow'' then g3 x
     else if k = ''totalDebt'' then g4 x
     else if k = ''totalCash'' then g5 x
     else x)"
  have 1: "h k (h k x) = h k x" for k x
    by (simp add: h_def g1(1) g2(1) g3(1) g4(1) g5(1))
  have 2: "h k x = x" if "k \<noteq> ''currentPrice''" "k \<noteq> ''regularMarketPrice''"
    "x \<noteq> None" "x \<noteq> Some PNone" for k x
    using that by (simp add: h_def g2(2) g3(2) g4(2) g5(2))
  have 3: "normalize_info stock i k = h k (i k)" for i k
    by (simp add: normalize_info_def h_def g1(2) g2(3) g3(3) g4(3) g5(3))
  from 1 2 3 show ?thesis by blast
qed

lemma normalize_idem: "normalize_info stock (normalize_info stock i) = normalize_info stock i"
proof -
  from normalize_keywise [of stock] obtain h where
    "(\<forall>k x. h k (h k x) = h k x) \<and>
       (\<forall>k x. k \<noteq> ''currentPrice'' \<longrightarrow> k \<noteq> ''regularMarketPrice'' \<longrightarrow>
              x \<noteq> None \<longrightarrow> x \<noteq> Some PNone \<longrightarrow> h k x = x) \<and>
       (\<forall>i k. normalize_info stock i k = h k (i k))" ..
  then have h: "\<And>k x. h k (h k x) = h k x" "\<And>i k. normalize_info stock i k = h k (i k)"
    by simp_all
  show ?thesis by (rule ext) (simp only: h)
qed

subsection \<open>What a step leaves alone\<close>

lemma update_price_other:
  "k \<noteq> ''currentPrice'' \<Longrightarrow> k \<noteq> ''regularMarketPrice'' \<Longrightarrow> update_price stock i k = i k"
  by (simp add: update_price_def Let_def split: option.splits)

lemma update_shares_other: "k \<noteq> ''sharesOutstanding'' \<Longrightarrow> update_shares stock i k = i k"
  by (simp add: update_shares_def Let_def split: option.splits)


lemma extract_total_debt_other: "k \<noteq> ''totalDebt'' \<Longrightarrow> extract_total_debt stock i k = i k"
  by (simp add: extract_total_debt_def Let_def split: sum.splits)

lemma extract_total_cash_other: "k \<noteq> ''totalCash'' \<Longrightarrow> extract_total_cash stock i k = i k"
  by (simp add: extract_total_cash_def Let_def split: sum.splits)

lemma normalize_fcf_key:
  "normalize_info stock i ''freeCashFlow'' =
     (if missing i ''freeCashFlow''
      then (case fcf_source (cashflow stock) of None \<Rightarrow> i ''freeCashFlow'' | Some v \<Rightarrow> Some v)
      else i ''freeCashFlow'')"
proof -
  let ?j = "update_shares stock (update_price stock i)"
  have j: "?j ''freeCashFlow'' = i ''freeCashFlow''"
    by (simp add: update_shares_other update_price_other)
  have "normalize_info stock i ''freeCashFlow'' = extract_fcf stock ?j ''freeCashFlow''"
    by (simp add: normalize_info_def extract_total_cash_other extract_total_debt_other)
  also have "\<dots> = (if missing ?j ''freeCashFlow''
      then (case fcf_source (cashflow stock) of None \<Rightarrow> ?j ''freeCashFlow'' | Some v \<Rightarrow> Some v)
      else ?j ''freeCashFlow'')"
    by (simp add: extract_fcf_eq split: option.splits)
  also have "\<dots> = (if missing i ''freeCashFlow''
      then (case fcf_source (cashflow stock) of None \<Rightarrow> i ''freeCashFlow'' | Some v \<Rightarrow> Some v)
      else i ''freeCashFlow'')"
    by (simp add: j missing_def cong: option.case_cong)
  finally show ?thesis .
qed



subsection \<open>Free cash flow\<close>

text \<open>
  Claim C5, as stated: when \<^verbatim>\<open>freeCashFlow\<close> is null, normalization takes the first
  non-null, non-zero value of the \<^verbatim>\<open>Free Cash Flow\<close> row and otherwise falls back to
  operating cash flow plus capital expenditure. It fails when the row is there but holds
  no such value: the fallback is the \<^verbatim>\<open>elif\<close> branch of the row test, so it is not
  tried, and \<^verbatim>\<open>freeCashFlow\<close> stays null although the most recent period has both
  figures.
\<close>

theorem normalize_fcf_fallback_counterexample:
  "missing Map.empty ''freeCashFlow''
   \<and> normalize_info (no_data\<lparr>cashflow := \<lparr>periods = 1, line_items =
            [(''Free Cash Flow'', [None]),
             (''Operating Cash Flow'', [Some 100]),
             (''Capital Expenditure'', [Some (- 30)])]\<rparr>\<rparr>) Map.empty ''freeCashFlow''
       = None"
  by (simp add: missing_def normalize_info_def no_data_def extract_total_cash_def extract_total_debt_def
      extract_fcf_def extract_fcf_try_def update_shares_def update_price_def Let_def
      empty_table_def in_index_def loc_def cell_at_def and_then_def)

text \<open>
  Claim C5, amended: for every snapshot with null \<^verbatim>\<open>freeCashFlow\<close> and every
  cash-flow table, if the table has a \<^verbatim>\<open>Free Cash Flow\<close> row, normalization sets the
  field to the first non-null, non-zero value of that row, periods scanned most recent
  first, and leaves it as it was when the row has none; if the table has no such row,
  it sets the field to operating cash flow plus capital expenditure of the first period
  where both are non-null, and leaves it as it was when there is no such period or one
  of the two rows is missing. With no \<^verbatim>\<open>Free Cash Flow\<close> row and 100 and -30 in the
  most recent period, the field becomes 70.
\<close>

theorem normalize_free_cash_flow:
  assumes "missing i ''freeCashFlow''"
  shows "(in_index (cashflow stock) ''Free Cash Flow'' \<longrightarrow>
            normalize_info stock i ''freeCashFlow'' =
              (case first_valid_fcf (cashflow stock) of
                 None \<Rightarrow> i ''freeCashFlow'' | Some v \<Rightarrow> Some v))
       \<and> (\<not> in_index (cashflow stock) ''Free Cash Flow'' \<longrightarrow>
            normalize_info stock i ''freeCashFlow'' =
              (case first_ops_plus_capex (cashflow stock) of
                 None \<Rightarrow> i ''freeCashFlow'' | Some v \<Rightarrow> Some v))"
  using assms by (simp add: normalize_fcf_key fcf_source_def)

theorem normalize_free_cash_flow_witness:
  "missing Map.empty ''freeCashFlow''
   \<and> \<not> in_index \<lparr>periods = 2, line_items =
            [(''Operating Cash Flow'', [Some 100, Some 90]),
             (''Capital Expenditure'', [Some (- 30), Some (- 20)])]\<rparr> ''Free Cash Flow''
   \<and> normalize_info (no_data\<lparr>cashflow := \<lparr>periods = 2, line_items =
            [(''Operating Cash Flow'', [Some 100, Some 90]),
             (''Capital Expenditure'', [Some (- 30), Some (- 20)])]\<rparr>\<rparr>) Map.empty ''freeCashFlow''
       = Some (PNum 70)
   \<and> in_index \<lparr>periods = 3, line_items =
            [(''Free Cash Flow'', [None, Some 0, Some 55])]\<rparr> ''Free Cash Flow''
   \<and> normalize_info (no_data\<lparr>cashflow := \<lparr>periods = 3, line_items =
            [(''Free Cash Flow'', [None, Some 0, Some 55])]\<rparr>\<rparr>)
         [''freeCashFlow'' \<mapsto> PNone] ''freeCashFlow''
       = Some (PNum 55)"
  using normalize_free_cash_flow [of Map.empty "no_data\<lparr>cashflow := \<lparr>periods = 2, line_items =
            [(''Operating Cash Flow'', [Some 100, Some 90]),
             (''Capital Expenditure'', [Some (- 30), Some (- 20)])]\<rparr>\<rparr>"]
    normalize_free_cash_flow [of "[''freeCashFlow'' \<mapsto> PNone]"
       "no_data\<lparr>cashflow := \<lparr>periods = 3, line_items =
            [(''Free Cash Flow'', [None, Some 0, Some 55])]\<rparr>\<rparr>"]
  by (simp add: missing_def in_index_def first_valid_fcf_def first_ops_plus_capex_def
      valid_cell_def both_present_def cell_at_def upt_rec)

subsection \<open>Fields that are already there\<close>




subsection \<open>Idempotence\<close>

text \<open>
  Claim C7: with the provider's answers held fixed, normalizing a normalized dictionary
  changes nothing.
\<close>

theorem normalize_idempotent:
  "normalize_info stock (normalize_info stock i) = normalize_info stock i"
  by (rule normalize_idem)

theorem normalize_idempotent_witness:
  "normalize_info
     (no_data\<lparr>fast_info := Some [''last_price'' \<mapsto> PNum 101],
              balance_sheet := \<lparr>periods = 1, line_items = [(''Total Debt'', [None])]\<rparr>\<rparr>)
     (normalize_info
        (no_data\<lparr>fast_info := Some [''last_price'' \<mapsto> PNum 101],
                 balance_sheet := \<lparr>periods = 1, line_items = [(''Total Debt'', [None])]\<rparr>\<rparr>)
        [''totalDebt'' \<mapsto> PNone, ''currentPrice'' \<mapsto> PNum 100])
   = normalize_info
       (no_data\<lparr>fast_info := Some [''last_price'' \<mapsto> PNum 101],
                balance_sheet := \<lparr>periods = 1, line_items = [(''Total Debt'', [None])]\<rparr>\<rparr>)
       [''totalDebt'' \<mapsto> PNone, ''currentPrice'' \<mapsto> PNum 100]"
  by (rule normalize_idempotent)

section \<open>Properties of \<^verbatim>\<open>calculate_wacc\<close>\<close>

lemma loc0: "\<not> empty_table t \<Longrightarrow> in_index t row \<Longrightarrow> \<exists>c. loc t row 0 = Inr (of_cell c)"
  by (auto simp: empty_table_def in_index_def loc_def)

lemma of_cell_abs: "\<exists>v. py_abs (of_cell c) = Inr v \<and> v \<noteq> PNone"
  by (cases c) auto

lemma interest_expense_returns: "\<exists>v. interest_expense_of fin = Inr v \<and> v \<noteq> PNone"
proof -
  have "\<exists>v. and_then (loc fin row 0) py_abs = Inr v \<and> v \<noteq> PNone"
    if "\<not> empty_table fin" "in_index fin row" for row
    using loc0 [OF that] of_cell_abs by (auto simp: and_then_def)
  then show ?thesis by (auto simp: interest_expense_of_def)
qed

lemma cost_of_debt_falsy:
  "\<not> truthy total_debt \<Longrightarrow> cost_of_debt_of total_debt ie = Inr (PNum 0.045)"
  by (simp add: cost_of_debt_of_def and_then_def)

lemma wacc_all_equity:
  assumes "info_get i ''beta'' \<noteq> PNone" "truthy (info_get i ''marketCap'')"
    "\<not> truthy (info_get i ''totalDebt'')"
  shows "calculate_wacc stock (Some i) =
     (let coe = (case info_get i ''beta'' of PNum b \<Rightarrow> PNum (0.0425 + b * 0.05) | _ \<Rightarrow> PNaN)
      in Inr (coe, coe, PNum 0))"
proof -
  obtain ie where ie: "interest_expense_of (financials stock) = Inr ie"
    using interest_expense_returns by blast
  show ?thesis
    using assms
    by (cases "info_get i ''beta''")
      (simp_all add: calculate_wacc_def calculate_wacc_try_def wacc_of_info_def Let_def
        ie cost_of_debt_falsy and_then_def)
qed

lemma wacc_no_market_cap:
  assumes "\<not> truthy (info_get i ''marketCap'')"
  shows "calculate_wacc stock (Some i) = Inr (PNone, PNone, PNone)"
  using assms
  by (simp add: calculate_wacc_def calculate_wacc_try_def wacc_of_info_def Let_def and_then_def
      split: sum.splits)

lemma cost_of_debt_returns:
  "ie \<noteq> PNone \<Longrightarrow> \<exists>cd. cost_of_debt_of td ie = Inr cd \<and> cd \<noteq> PNone"
  by (cases td; cases ie) (auto simp: cost_of_debt_of_def and_then_def)

lemma blended_returns:
  assumes "truthy mc" "truthy td" "py_add mc td \<noteq> Inr (PNum 0)" "cd \<noteq> PNone"
  shows "\<exists>w. blended_wacc mc td (PNum e) cd = Inr w"
  using assms
  by (cases mc; cases td; cases cd) (auto simp: blended_wacc_def and_then_def)

lemma wacc_cost_of_equity:
  assumes "info_get i ''beta'' = PNum b" "truthy (info_get i ''marketCap'')"
    "\<not> truthy (info_get i ''totalDebt'')
     \<or> py_add (info_get i ''marketCap'') (info_get i ''totalDebt'') \<noteq> Inr (PNum 0)"
  shows "\<exists>w d. calculate_wacc stock (Some i) = Inr (w, PNum (0.0425 + b * 0.05), d)"
proof (cases "truthy (info_get i ''totalDebt'')")
  case False
  with wacc_all_equity [of i stock] assms show ?thesis by (simp add: Let_def)
next
  case True
  obtain ie where ie: "interest_expense_of (financials stock) = Inr ie" "ie \<noteq> PNone"
    using interest_expense_returns by blast
  obtain cd where cd: "cost_of_debt_of (info_get i ''totalDebt'') ie = Inr cd" "cd \<noteq> PNone"
    using cost_of_debt_returns [OF ie(2)] by blast
  from True assms(3) have nz:
    "py_add (info_get i ''marketCap'') (info_get i ''totalDebt'') \<noteq> Inr (PNum 0)" by simp
  obtain w where w: "blended_wacc (info_get i ''marketCap'') (info_get i ''totalDebt'')
      (PNum (0.0425 + b * 0.05)) cd = Inr w"
    using blended_returns [OF assms(2) True nz cd(2)] by blast
  have "calculate_wacc stock (Some i) = Inr (w, PNum (0.0425 + b * 0.05), cd)"
    using assms(1,2) True ie cd w
    by (simp add: calculate_wacc_def calculate_wacc_try_def wacc_of_info_def Let_def
        and_then_def add.commute mult.commute)
  then show ?thesis by blast
qed

subsection \<open>Evaluating the binary64 reading\<close>

lemma find_exp_numeral:
  "find_exp (numeral k) x e =
     (if x / pow2 e < 2 ^ 52 then find_exp (pred_numeral k) x (e - 1)
      else if x / pow2 e \<ge> 2 ^ 53 then find_exp (pred_numeral k) x (e + 1)
      else e)"
  by (simp add: numeral_eq_Suc)

lemmas f64_eval = f64_round_def find_exp_numeral pow2_def round_half_even_def Let_def

lemma f64_risk_free_rate: "f64_round 0.0425 = 6124895493223875 / 2 ^ 57"
  by (simp add: f64_eval)

lemma f64_beta: "f64_round 1.2 = 5404319552844595 / 2 ^ 52"
  by (simp add: f64_eval)

lemma f64_equity_risk_premium: "f64_round 0.05 = 3602879701896397 / 2 ^ 56"
  by (simp add: f64_eval)

lemma f64_premium:
  "f64_mul (5404319552844595 / 2 ^ 52) (3602879701896397 / 2 ^ 56) = 1080863910568919 / 2 ^ 54"
  by (simp add: f64_mul_def f64_eval)

lemma f64_sum:
  "f64_add (6124895493223875 / 2 ^ 57) (1080863910568919 / 2 ^ 54) = 7385903388887614 / 2 ^ 56"
  by (simp add: f64_add_def f64_eval)

lemma cost_of_equity_f64_beta: "cost_of_equity_f64 (f64_round 1.2) = 7385903388887614 / 2 ^ 56"
  unfolding cost_of_equity_f64_def f64_risk_free_rate f64_beta f64_equity_risk_premium
    f64_premium f64_sum ..

lemma f64_literal: "f64_round 0.1025 = 7385903388887613 / 2 ^ 56"
  by (simp add: f64_eval)

text \<open>
  Claim C3: when beta and the market capitalisation are present and the total debt is
  null or zero, the result is the cost of equity twice and a cost of debt of zero; the
  blended formula is not applied. Present means: beta is not \<^verbatim>\<open>None\<close>, the market
  capitalisation is neither \<^verbatim>\<open>None\<close> nor zero.
\<close>

theorem calculate_wacc_all_equity:
  assumes "info_get i ''beta'' \<noteq> PNone" and "truthy (info_get i ''marketCap'')"
    and "info_get i ''totalDebt'' = PNone \<or> info_get i ''totalDebt'' = PNum 0"
  shows "calculate_wacc stock (Some i) =
     Inr (case info_get i ''beta'' of PNum b \<Rightarrow> PNum (0.0425 + b * 0.05) | _ \<Rightarrow> PNaN,
          case info_get i ''beta'' of PNum b \<Rightarrow> PNum (0.0425 + b * 0.05) | _ \<Rightarrow> PNaN,
          PNum 0)"
proof -
  from assms(3) have "\<not> truthy (info_get i ''totalDebt'')" by auto
  from wacc_all_equity [OF assms(1,2) this] show ?thesis by (simp add: Let_def)
qed

theorem calculate_wacc_all_equity_witness:
  "calculate_wacc no_data
     (Some [''beta'' \<mapsto> PNum 1.2, ''marketCap'' \<mapsto> PNum 1000, ''totalDebt'' \<mapsto> PNum 0])
     = Inr (PNum 0.1025, PNum 0.1025, PNum 0)
   \<and> calculate_wacc no_data (Some [''beta'' \<mapsto> PNum 1.2, ''marketCap'' \<mapsto> PNum 1000])
     = Inr (PNum 0.1025, PNum 0.1025, PNum 0)"
  using calculate_wacc_all_equity
          [of "[''beta'' \<mapsto> PNum 1.2, ''marketCap'' \<mapsto> PNum 1000, ''totalDebt'' \<mapsto> PNum 0]" no_data]
        calculate_wacc_all_equity [of "[''beta'' \<mapsto> PNum 1.2, ''marketCap'' \<mapsto> PNum 1000]" no_data]
  by (simp add: info_get_def)

text \<open>
  Claim C4, as stated: for every profile with non-null beta the cost of equity that
  \<^verbatim>\<open>calculate_wacc\<close> returns is \<open>0.0425 + beta * 0.05\<close>, and for \<open>beta = 1.2\<close> it is
  exactly \<open>0.1025\<close>. It fails twice. When the market capitalisation is missing, the
  function returns three times \<^verbatim>\<open>None\<close>, the cost of equity included, although it
  has computed it. And on floats the value for \<open>beta = 1.2\<close> is not the double that
  \<^verbatim>\<open>0.1025\<close> denotes: the product and the sum each round, and the result is the next
  double above it, which Python prints as \<^verbatim>\<open>0.10250000000000001\<close>.
\<close>

theorem calculate_wacc_cost_of_equity_counterexample:
  "info_get [''beta'' \<mapsto> PNum 1.2] ''beta'' \<noteq> PNone
   \<and> calculate_wacc no_data (Some [''beta'' \<mapsto> PNum 1.2]) = Inr (PNone, PNone, PNone)
   \<and> cost_of_equity_f64 (f64_round 1.2) \<noteq> f64_round 0.1025"
proof (intro conjI)
  show "info_get [''beta'' \<mapsto> PNum 1.2] ''beta'' \<noteq> PNone"
    by (simp add: info_get_def)
  show "calculate_wacc no_data (Some [''beta'' \<mapsto> PNum 1.2]) = Inr (PNone, PNone, PNone)"
    by (rule wacc_no_market_cap) (simp add: info_get_def)
  show "cost_of_equity_f64 (f64_round 1.2) \<noteq> f64_round 0.1025"
    unfolding cost_of_equity_f64_beta f64_literal by simp
qed

text \<open>
  Claim C4, amended: for every profile with a numeric beta on which \<^verbatim>\<open>calculate_wacc\<close>
  has a result, that is, the market capitalisation is present and non-zero and, when the
  total debt is present and non-zero too, their sum is not zero, the cost of equity
  returned is \<open>0.0425 + beta * 0.05\<close>. For \<open>beta = 1.2\<close> this is \<open>0.1025\<close> in exact
  arithmetic; evaluated in binary64, as Python does, it is one unit in the last place
  (\<open>2 ^ -56\<close>) above the double nearest to \<open>0.1025\<close>.
\<close>

theorem calculate_wacc_cost_of_equity:
  assumes "info_get i ''beta'' = PNum beta" and "truthy (info_get i ''marketCap'')"
    and "\<not> truthy (info_get i ''totalDebt'')
         \<or> py_add (info_get i ''marketCap'') (info_get i ''totalDebt'') \<noteq> Inr (PNum 0)"
  shows "(\<exists>wacc cost_of_debt.
            calculate_wacc stock (Some i) = Inr (wacc, PNum (0.0425 + beta * 0.05), cost_of_debt))
         \<and> (0.0425 + 1.2 * 0.05 :: real) = 0.1025
         \<and> cost_of_equity_f64 (f64_round 1.2) = f64_round 0.1025 + 1 / 2 ^ 56"
proof (intro conjI)
  show "\<exists>wacc cost_of_debt.
      calculate_wacc stock (Some i) = Inr (wacc, PNum (0.0425 + beta * 0.05), cost_of_debt)"
    using assms by (rule wacc_cost_of_equity)
  show "(0.0425 + 1.2 * 0.05 :: real) = 0.1025" by simp
  show "cost_of_equity_f64 (f64_round 1.2) = f64_round 0.1025 + 1 / 2 ^ 56"
    unfolding cost_of_equity_f64_beta f64_literal by simp
qed

theorem calculate_wacc_cost_of_equity_witness:
  "\<exists>wacc cost_of_debt.
     calculate_wacc no_data
       (Some [''beta'' \<mapsto> PNum 1.2, ''marketCap'' \<mapsto> PNum 1000, ''totalDebt'' \<mapsto> PNum 500])
     = Inr (wacc, PNum 0.1025, cost_of_debt)"
  using calculate_wacc_cost_of_equity
    [of "[''beta'' \<mapsto> PNum 1.2, ''marketCap'' \<mapsto> PNum 1000, ''totalDebt'' \<mapsto> PNum 500]"
        "1.2" no_data]
  by (simp add: info_get_def)

text \<open>
  Claim C10: a market capitalisation that is present but zero gives the all-unavailable
  result, three times \<^verbatim>\<open>None\<close>, as a missing one does: \<^verbatim>\<open>not market_cap\<close> is true
  of both. This holds whatever beta and the other fields are.
\<close>

theorem calculate_wacc_zero_market_cap:
  assumes "info_get i ''marketCap'' = PNum 0 \<or> info_get i ''marketCap'' = PNone"
  shows "calculate_wacc stock (Some i) = Inr (PNone, PNone, PNone)"
proof -
  from assms have "\<not> truthy (info_get i ''marketCap'')" by auto
  then show ?thesis by (rule wacc_no_market_cap)
qed

theorem calculate_wacc_zero_market_cap_witness:
  "calculate_wacc no_data
     (Some [''beta'' \<mapsto> PNum 1.2, ''marketCap'' \<mapsto> PNum 0, ''totalDebt'' \<mapsto> PNum 500])
     = Inr (PNone, PNone, PNone)
   \<and> calculate_wacc no_data (Some [''beta'' \<mapsto> PNum 1.2, ''totalDebt'' \<mapsto> PNum 500])
     = Inr (PNone, PNone, PNone)"
  using calculate_wacc_zero_market_cap
          [of "[''beta'' \<mapsto> PNum 1.2, ''marketCap'' \<mapsto> PNum 0, ''totalDebt'' \<mapsto> PNum 500]" no_data]
        calculate_wacc_zero_market_cap
          [of "[''beta'' \<mapsto> PNum 1.2, ''totalDebt'' \<mapsto> PNum 500]" no_data]
  by (simp add: info_get_def)

section \<open>Properties of \<^verbatim>\<open>calculate_indicators\<close>\<close>













end
